theory Spec2Isabelle
  imports Complex_Main
begin

section \<open>Dark matter spectra (gammapy/astro/darkmatter/spectra.py)\<close>

text \<open>
  The module computes gamma-ray spectra of dark-matter annihilation and decay from a
  table of yields. Numbers are modelled as real numbers: a Python float is taken as the
  real it denotes, so rounding, infinities and NaN are outside the model (division by a
  zero \<open>k\<close> or mass, and the logarithm of a non-positive energy, give \<open>inf\<close> or \<open>nan\<close> in
  numpy and are not meaningful here).
\<close>

subsection \<open>Units and quantities (astropy.units)\<close>

text \<open>
  A unit is a scale factor relative to the coherent unit \<open>GeV\<^sup>a cm\<^sup>b s\<^sup>c\<close> together with
  the three exponents. Multiplying and dividing quantities composes units without
  converting; \<open>to\<close> converts between units of the same dimension and fails otherwise.
\<close>

record u_unit =
  u_scale :: real
  u_energy :: int
  u_length :: int
  u_time :: int

record u_quantity =
  q_value :: real
  q_unit :: u_unit

datatype fpart =
    Lit string
  | FStr string
  | FList "string list"
  | FQty u_quantity

datatype error =
    FileNotFoundError string
  | ValueError "fpart list"
  | UnitConversionError
  | UnitTypeError
  | KeyError string
  | IndexError
  | TypeError string

definition dimensionless_unscaled :: u_unit where
  "dimensionless_unscaled = \<lparr>u_scale = 1, u_energy = 0, u_length = 0, u_time = 0\<rparr>"

definition GeV :: u_unit where
  "GeV = \<lparr>u_scale = 1, u_energy = 1, u_length = 0, u_time = 0\<rparr>"

definition TeV :: u_unit where
  "TeV = \<lparr>u_scale = 1000, u_energy = 1, u_length = 0, u_time = 0\<rparr>"

definition cm3_per_s :: u_unit where
  "cm3_per_s = \<lparr>u_scale = 1, u_energy = 0, u_length = 3, u_time = - 1\<rparr>"

definition second :: u_unit where
  "second = \<lparr>u_scale = 1, u_energy = 0, u_length = 0, u_time = 1\<rparr>"

definition unit_mul :: "u_unit \<Rightarrow> u_unit \<Rightarrow> u_unit" where
  "unit_mul a b = \<lparr>u_scale = u_scale a * u_scale b, u_energy = u_energy a + u_energy b,
     u_length = u_length a + u_length b, u_time = u_time a + u_time b\<rparr>"

definition unit_div :: "u_unit \<Rightarrow> u_unit \<Rightarrow> u_unit" where
  "unit_div a b = \<lparr>u_scale = u_scale a / u_scale b, u_energy = u_energy a - u_energy b,
     u_length = u_length a - u_length b, u_time = u_time a - u_time b\<rparr>"

definition same_dimension :: "u_unit \<Rightarrow> u_unit \<Rightarrow> bool" where
  "same_dimension a b \<longleftrightarrow>
     u_energy a = u_energy b \<and> u_length a = u_length b \<and> u_time a = u_time b"

definition Quantity :: "real \<Rightarrow> u_unit \<Rightarrow> u_quantity" where
  "Quantity v u = \<lparr>q_value = v, q_unit = u\<rparr>"

text \<open>\<open>q.to(unit)\<close>: the value rescaled, or a unit conversion error.\<close>

definition quantity_to :: "u_quantity \<Rightarrow> u_unit \<Rightarrow> error + u_quantity" where
  "quantity_to q u =
     (if same_dimension (q_unit q) u
      then Inr (Quantity (q_value q * u_scale (q_unit q) / u_scale u) u)
      else Inl UnitConversionError)"

text \<open>\<open>q1 * q2\<close>, \<open>q1 / q2\<close>, \<open>q * x\<close>, \<open>x * q\<close> and \<open>q / x\<close> for a plain number \<open>x\<close>.\<close>

definition qmul :: "u_quantity \<Rightarrow> u_quantity \<Rightarrow> u_quantity" where
  "qmul a b = Quantity (q_value a * q_value b) (unit_mul (q_unit a) (q_unit b))"

definition qdiv :: "u_quantity \<Rightarrow> u_quantity \<Rightarrow> u_quantity" where
  "qdiv a b = Quantity (q_value a / q_value b) (unit_div (q_unit a) (q_unit b))"

definition qmul_num :: "u_quantity \<Rightarrow> real \<Rightarrow> u_quantity" where
  "qmul_num a x = Quantity (q_value a * x) (q_unit a)"

definition num_qmul :: "real \<Rightarrow> u_quantity \<Rightarrow> u_quantity" where
  "num_qmul x a = Quantity (x * q_value a) (q_unit a)"

definition qdiv_num :: "u_quantity \<Rightarrow> real \<Rightarrow> u_quantity" where
  "qdiv_num a x = Quantity (q_value a / x) (q_unit a)"

text \<open>
  \<open>np.log10\<close> of a quantity: the argument is converted to the unscaled dimensionless
  unit first, and a quantity with a dimension is rejected.
\<close>

definition np_log10 :: "u_quantity \<Rightarrow> error + u_quantity" where
  "np_log10 q =
     (if same_dimension (q_unit q) dimensionless_unscaled
      then Inr (Quantity (log 10 (q_value q * u_scale (q_unit q))) dimensionless_unscaled)
      else Inl UnitTypeError)"

subsection \<open>The mass parameter and the template model\<close>

text \<open>
  Modelled from the spec: the fit parameter of gammapy.modeling (\<open>Parameter\<close>, not part of
  this file of the repository): a bounded, named scalar with a unit.
\<close>

record parameter =
  p_value :: real
  p_unit :: u_unit
  p_min :: real
  p_max :: real
  p_frozen :: bool

definition p_quantity :: "parameter \<Rightarrow> u_quantity" where
  "p_quantity p = Quantity (p_value p) (p_unit p)"

text \<open>
  The region map over the axes \<open>log10x\<close> (named \<open>energy_true\<close>) and \<open>mass\<close>, with the
  interpolation arguments the constructor passes. \<open>interpolate\<close> is the value the
  interpolation engine computes from the nodes and the data inside the grid.
\<close>

record template_model =
  log10x_axis :: "real list"
  mass_axis :: "real list"
  map_data :: "real list"
  extrapolate :: bool
  fill_value :: real
  values_scale :: string
  interpolate :: "real \<Rightarrow> real \<Rightarrow> real"

text \<open>
  Modelled from the spec: the N-dimensional grid interpolation (gammapy.maps and the
  interpolator behind it, not part of this file): inside the grid the interpolated value,
  outside the tabulated range of either axis the fill value, never an error.
\<close>

definition in_axis :: "real list \<Rightarrow> real \<Rightarrow> bool" where
  "in_axis nodes x \<longleftrightarrow> nodes \<noteq> [] \<and> hd nodes \<le> x \<and> x \<le> last nodes"

definition interp_by_coord :: "template_model \<Rightarrow> real \<Rightarrow> real \<Rightarrow> real" where
  "interp_by_coord t lx m =
     (if in_axis (log10x_axis t) lx \<and> in_axis (mass_axis t) m
      then interpolate t lx m
      else fill_value t)"

text \<open>
  Modelled from the spec: \<open>TemplateNDSpectralModel.evaluate(energy, **kwargs)\<close> (the base
  class, not part of this file): the coordinates are the positional argument under the
  name \<open>energy_true\<close>, updated with the keyword arguments; every name must be an axis of
  the map; the grid is queried at (log10x, mass), each coordinate in its axis unit, and
  the value comes back as a quantity in the unit of the map (dimensionless).
\<close>

definition TemplateNDSpectralModel_evaluate ::
  "template_model \<Rightarrow> u_quantity \<Rightarrow> (string \<rightharpoonup> u_quantity) \<Rightarrow> error + u_quantity" where
  "TemplateNDSpectralModel_evaluate t energy kwargs =
     (let coord = [''energy_true'' \<mapsto> energy] ++ kwargs in
      if dom coord \<noteq> {''energy_true'', ''mass''} then Inl (KeyError ''axis'')
      else
        (case (coord ''energy_true'', coord ''mass'') of
           (Some e, Some m) \<Rightarrow>
             (case quantity_to e dimensionless_unscaled of
                Inl err \<Rightarrow> Inl err
              | Inr e' \<Rightarrow>
                 (case quantity_to m GeV of
                    Inl err \<Rightarrow> Inl err
                  | Inr m' \<Rightarrow>
                      Inr (Quantity (interp_by_coord t (q_value e') (q_value m'))
                             dimensionless_unscaled)))
         | _ \<Rightarrow> Inl (KeyError ''axis'')))"

subsection \<open>PrimaryFlux\<close>

definition backslash :: string where
  "backslash = [CHR 0x5C]"

definition channel_registry :: "(string \<times> string) list" where
  "channel_registry =
    [(''eL'', ''eL''),
     (''eR'', ''eR''),
     (''e'', ''e''),
     (''muL'', backslash @ ''[Mu]L''),
     (''muR'', backslash @ ''[Mu]R''),
     (''mu'', backslash @ ''[Mu]''),
     (''tauL'', backslash @ ''[Tau]L''),
     (''tauR'', backslash @ ''[Tau]R''),
     (''tau'', backslash @ ''[Tau]''),
     (''q'', ''q''),
     (''c'', ''c''),
     (''b'', ''b''),
     (''t'', ''t''),
     (''WL'', ''WL''),
     (''WT'', ''WT''),
     (''W'', ''W''),
     (''ZL'', ''ZL''),
     (''ZT'', ''ZT''),
     (''Z'', ''Z''),
     (''g'', ''g''),
     (''gamma'', backslash @ ''[Gamma]''),
     (''h'', ''h''),
     (''nu_e'', backslash @ ''[Nu]e''),
     (''nu_mu'', backslash @ ''[Nu]'' @ backslash @ ''[Mu]''),
     (''nu_tau'', backslash @ ''[Nu]'' @ backslash @ ''[Tau]''),
     (''V->e'', ''V->e''),
     (''V->mu'', ''V->'' @ backslash @ ''[Mu]''),
     (''V->tau'', ''V->'' @ backslash @ ''[Tau]'')]"

definition table_filename :: string where
  "table_filename = ''$GAMMAPY_DATA/dark_matter_spectra/AtProduction_gammas.dat''"

text \<open>The instance: the channel, the template model it extends and its mass parameter.\<close>

record primary_flux =
  channel_attr :: string
  template :: template_model
  mass :: parameter

definition PrimaryFlux_mDM :: "primary_flux \<Rightarrow> u_quantity" where
  "PrimaryFlux_mDM self = Quantity (p_value (mass self)) GeV"

text \<open>
  The setter of \<open>mDM\<close>. The result is the outcome together with the instance afterwards:
  an exception leaves the instance as it was.
\<close>

definition PrimaryFlux_mDM_setter ::
  "primary_flux \<Rightarrow> u_quantity \<Rightarrow> (error + unit) \<times> primary_flux" where
  "PrimaryFlux_mDM_setter self mDM =
     (let unit = p_unit (mass self) in
      case quantity_to mDM unit of
        Inl err \<Rightarrow> (Inl err, self)
      | Inr mDM' \<Rightarrow>
         (let mDM_val = q_value mDM';
              min_mass = Quantity (p_min (mass self)) unit;
              max_mass = Quantity (p_max (mass self)) unit
          in if mDM_val < p_min (mass self) \<or> mDM_val > p_max (mass self)
             then (Inl (ValueError
                     [Lit ''The mass '', FQty mDM',
                      Lit '' is out of the bounds of the model. Please choose a mass between '',
                      FQty min_mass, Lit '' < `mDM` < '', FQty max_mass]), self)
             else (Inr (), self\<lparr>mass := (mass self)\<lparr>p_value := mDM_val\<rparr>\<rparr>)))"

definition allowed_channels :: "string list" where
  "allowed_channels = map fst channel_registry"

text \<open>The check of the channel setter: the channel to store, or the error raised.\<close>

definition check_channel :: "string \<Rightarrow> error + string" where
  "check_channel channel =
     (if channel \<notin> set allowed_channels
      then Inl (ValueError
             [Lit ''Invalid channel: '', FStr channel, Lit ''\<newline>Available: '',
              FList allowed_channels, Lit ''\<newline>''])
      else Inr channel)"

definition PrimaryFlux_channel_setter ::
  "primary_flux \<Rightarrow> string \<Rightarrow> (error + unit) \<times> primary_flux" where
  "PrimaryFlux_channel_setter self channel =
     (case check_channel channel of
        Inl err \<Rightarrow> (Inl err, self)
      | Inr c \<Rightarrow> (Inr (), self\<lparr>channel_attr := c\<rparr>))"

definition PrimaryFlux_evaluate ::
  "primary_flux \<Rightarrow> u_quantity \<Rightarrow> (string \<rightharpoonup> u_quantity) \<Rightarrow> error + u_quantity" where
  "PrimaryFlux_evaluate self energy kwargs =
     (let kwargs' = kwargs(''mass'' \<mapsto> PrimaryFlux_mDM self) in
      case np_log10 (qdiv energy (PrimaryFlux_mDM self)) of
        Inl err \<Rightarrow> Inl err
      | Inr log10x \<Rightarrow>
         (case TemplateNDSpectralModel_evaluate (template self) log10x kwargs' of
            Inl err \<Rightarrow> Inl err
          | Inr dN_dlogx \<Rightarrow> Inr (qdiv dN_dlogx (qmul_num energy (ln 10)))))"

text \<open>
  Modelled from the spec: calling a spectral model (\<open>SpectralModel.__call__\<close>, not part of
  this file) evaluates it with the quantities of its parameters as keyword arguments; the
  only parameter of a \<open>PrimaryFlux\<close> is its mass.
\<close>

definition PrimaryFlux_call :: "primary_flux \<Rightarrow> u_quantity \<Rightarrow> error + u_quantity" where
  "PrimaryFlux_call self energy =
     PrimaryFlux_evaluate self energy [''mass'' \<mapsto> p_quantity (mass self)]"

subsection \<open>Construction of a PrimaryFlux\<close>

text \<open>
  What the constructor reads from outside: whether the data file is there, the table read
  from it (a column of numbers under each column name), and the interpolation engine,
  which turns the nodes of the two axes and the data into the interpolating function.
\<close>

record dm_env =
  file_exists :: bool
  table :: "string \<rightharpoonup> real list"
  interp_engine :: "real list \<Rightarrow> real list \<Rightarrow> real list \<Rightarrow> real \<Rightarrow> real \<Rightarrow> real"

definition np_unique :: "real list \<Rightarrow> real list" where
  "np_unique xs = sort (remdups xs)"

text \<open>
  Modelled from the spec: the mass parameter that \<open>TemplateNDSpectralModel.__init__\<close> (not
  part of this file) derives from the mass axis: its bounds are the least and the greatest
  mass of the table, in the unit of the axis, and it starts in the middle.
\<close>

definition axis_parameter :: "real list \<Rightarrow> u_unit \<Rightarrow> parameter" where
  "axis_parameter nodes u =
     \<lparr>p_value = (hd nodes + last nodes) / 2, p_unit = u,
      p_min = hd nodes, p_max = last nodes, p_frozen = False\<rparr>"

definition file_not_found :: error where
  "file_not_found = FileNotFoundError
     (''\<newline>\<newline>File not found: '' @ table_filename @ ''\<newline>'' @
      ''You may download the dataset needed with the following command:\<newline>'' @
      ''gammapy download datasets --src dark_matter_spectra'')"

definition PrimaryFlux_init :: "dm_env \<Rightarrow> u_quantity \<Rightarrow> string \<Rightarrow> error + primary_flux" where
  "PrimaryFlux_init env mDM channel =
     (if \<not> file_exists env then Inl file_not_found
      else
        (case check_channel channel of
           Inl err \<Rightarrow> Inl err
         | Inr c \<Rightarrow>
            (case table env ''mDM'' of
               None \<Rightarrow> Inl (KeyError ''mDM'')
             | Some mcol \<Rightarrow>
                (case table env ''Log[10,x]'' of
                   None \<Rightarrow> Inl (KeyError ''Log[10,x]'')
                 | Some xcol \<Rightarrow>
                    (let masses = np_unique mcol; log10x = np_unique xcol in
                     if masses = [] \<or> log10x = [] then Inl (ValueError [Lit ''empty axis''])
                     else
                       (case map_of channel_registry c of
                          None \<Rightarrow> Inl (KeyError c)
                        | Some channel_name \<Rightarrow>
                           (case table env channel_name of
                              None \<Rightarrow> Inl (KeyError channel_name)
                            | Some col \<Rightarrow>
                               (if length col \<noteq> length log10x * length masses
                                then Inl (ValueError [Lit ''cannot reshape array''])
                                else
                                  (let t = \<lparr>log10x_axis = log10x, mass_axis = masses,
                                             map_data = col, extrapolate = True,
                                             fill_value = 0, values_scale = ''lin'',
                                             interpolate = interp_engine env log10x masses col\<rparr>;
                                       self0 = \<lparr>channel_attr = c, template = t,
                                                mass = axis_parameter masses GeV\<rparr>
                                   in case PrimaryFlux_mDM_setter self0 mDM of
                                        (Inl err, _) \<Rightarrow> Inl err
                                      | (Inr _, self1) \<Rightarrow>
                                          Inr (self1\<lparr>mass := (mass self1)\<lparr>p_frozen := True\<rparr>\<rparr>))))))))))"

subsection \<open>The annihilation and decay models\<close>

definition THERMAL_RELIC_CROSS_SECTION :: u_quantity where
  "THERMAL_RELIC_CROSS_SECTION = Quantity (3 / 10 ^ 26) cm3_per_s"

definition LIFETIME_AGE_OF_UNIVERSE :: u_quantity where
  "LIFETIME_AGE_OF_UNIVERSE = Quantity (43 * 10 ^ 16) second"

record annihilation_model =
  ann_k :: real
  ann_z :: real
  ann_mass :: u_quantity
  ann_channel :: string
  ann_jfactor :: u_quantity
  ann_primary_flux :: primary_flux
  ann_scale :: real

record decay_model =
  dec_z :: real
  dec_mass :: u_quantity
  dec_channel :: string
  dec_jfactor :: u_quantity
  dec_primary_flux :: primary_flux
  dec_scale :: real

definition DarkMatterAnnihilationSpectralModel_init ::
  "dm_env \<Rightarrow> u_quantity \<Rightarrow> string \<Rightarrow> real \<Rightarrow> u_quantity \<Rightarrow> real \<Rightarrow> real
     \<Rightarrow> error + annihilation_model" where
  "DarkMatterAnnihilationSpectralModel_init env mass_arg channel scale jfactor z k =
     (case PrimaryFlux_init env mass_arg channel of
        Inl err \<Rightarrow> Inl err
      | Inr pf \<Rightarrow>
          Inr \<lparr>ann_k = k, ann_z = z, ann_mass = mass_arg, ann_channel = channel,
               ann_jfactor = jfactor, ann_primary_flux = pf, ann_scale = scale\<rparr>)"

definition DarkMatterAnnihilationSpectralModel_evaluate ::
  "annihilation_model \<Rightarrow> u_quantity \<Rightarrow> real \<Rightarrow> error + u_quantity" where
  "DarkMatterAnnihilationSpectralModel_evaluate self energy scale =
     (case PrimaryFlux_call (ann_primary_flux self) (qmul_num energy (1 + ann_z self)) of
        Inl err \<Rightarrow> Inl err
      | Inr dN_dE \<Rightarrow>
          Inr (qdiv_num
                (qdiv
                  (qdiv
                    (qdiv_num
                      (qmul
                        (qmul (num_qmul scale (ann_jfactor self)) THERMAL_RELIC_CROSS_SECTION)
                        dN_dE)
                      (ann_k self))
                    (ann_mass self))
                  (ann_mass self))
                (4 * pi)))"

definition DarkMatterDecaySpectralModel_init ::
  "dm_env \<Rightarrow> u_quantity \<Rightarrow> string \<Rightarrow> real \<Rightarrow> u_quantity \<Rightarrow> real \<Rightarrow> error + decay_model" where
  "DarkMatterDecaySpectralModel_init env mass_arg channel scale jfactor z =
     (case PrimaryFlux_init env mass_arg channel of
        Inl err \<Rightarrow> Inl err
      | Inr pf \<Rightarrow>
          Inr \<lparr>dec_z = z, dec_mass = mass_arg, dec_channel = channel,
               dec_jfactor = jfactor, dec_primary_flux = pf, dec_scale = scale\<rparr>)"

definition DarkMatterDecaySpectralModel_evaluate ::
  "decay_model \<Rightarrow> u_quantity \<Rightarrow> real \<Rightarrow> error + u_quantity" where
  "DarkMatterDecaySpectralModel_evaluate self energy scale =
     (case PrimaryFlux_call (dec_primary_flux self) (qmul_num energy (1 + dec_z self)) of
        Inl err \<Rightarrow> Inl err
      | Inr dN_dE \<Rightarrow>
          Inr (qdiv_num
                (qdiv
                  (qdiv
                    (qmul (num_qmul scale (dec_jfactor self)) dN_dE)
                    LIFETIME_AGE_OF_UNIVERSE)
                  (dec_mass self))
                (4 * pi)))"

subsection \<open>Serialisation\<close>

text \<open>
  The values of a model dictionary. A number is a \<open>YNum\<close>; a unit-qualified string such as
  \<open>5000.0 GeV\<close> is a \<open>YQty\<close>, the quantity that \<open>Quantity.to_string\<close> wrote and that
  \<open>u.Quantity\<close> reads back; any other string is a \<open>YStr\<close>; the list of parameter
  dictionaries is a \<open>YParams\<close>. The argument of \<open>from_dict\<close> maps \<open>spectral\<close> to the
  dictionary of the spectral model.
\<close>

datatype yaml =
    YStr string
  | YNum real
  | YQty u_quantity
  | YParams "(string \<times> yaml) list list"

type_synonym model_dict = "string \<rightharpoonup> (string \<rightharpoonup> yaml)"

text \<open>
  Modelled from the spec: \<open>SpectralModel.to_dict\<close> (the base class, not part of this
  file): under \<open>spectral\<close>, the type tag and the list of parameters, here the scale
  parameter with its name and current value.
\<close>

definition SpectralModel_to_dict :: "string \<Rightarrow> real \<Rightarrow> model_dict" where
  "SpectralModel_to_dict tag scale =
     [''spectral'' \<mapsto>
        [''type'' \<mapsto> YStr tag,
         ''parameters'' \<mapsto> YParams [[(''name'', YStr ''scale''), (''value'', YNum scale)]]]]"

definition DarkMatterAnnihilationSpectralModel_to_dict ::
  "annihilation_model \<Rightarrow> error + model_dict" where
  "DarkMatterAnnihilationSpectralModel_to_dict self =
     (let data = SpectralModel_to_dict ''DarkMatterAnnihilationSpectralModel'' (ann_scale self) in
      case data ''spectral'' of
        None \<Rightarrow> Inl (KeyError ''spectral'')
      | Some sp \<Rightarrow>
          Inr (data(''spectral'' \<mapsto>
                 sp(''channel'' \<mapsto> YStr (ann_channel self),
                    ''mass'' \<mapsto> YQty (ann_mass self),
                    ''jfactor'' \<mapsto> YQty (ann_jfactor self),
                    ''z'' \<mapsto> YNum (ann_z self),
                    ''k'' \<mapsto> YNum (ann_k self)))))"

definition DarkMatterDecaySpectralModel_to_dict :: "decay_model \<Rightarrow> error + model_dict" where
  "DarkMatterDecaySpectralModel_to_dict self =
     (let data = SpectralModel_to_dict ''DarkMatterDecaySpectralModel'' (dec_scale self) in
      case data ''spectral'' of
        None \<Rightarrow> Inl (KeyError ''spectral'')
      | Some sp \<Rightarrow>
          Inr (data(''spectral'' \<mapsto>
                 sp(''channel'' \<mapsto> YStr (dec_channel self),
                    ''mass'' \<mapsto> YQty (dec_mass self),
                    ''jfactor'' \<mapsto> YQty (dec_jfactor self),
                    ''z'' \<mapsto> YNum (dec_z self)))))"

text \<open>
  The list comprehension \<open>[p["value"] for p in parameters if p["name"] == "scale"]\<close>: a
  parameter without a name, or a scale parameter without a value, is a \<open>KeyError\<close>.
\<close>

fun scale_values :: "(string \<times> yaml) list list \<Rightarrow> error + yaml list" where
  "scale_values [] = Inr []"
| "scale_values (p # ps) =
     (case map_of p ''name'' of
        None \<Rightarrow> Inl (KeyError ''name'')
      | Some n \<Rightarrow>
          (if n = YStr ''scale''
           then (case map_of p ''value'' of
                   None \<Rightarrow> Inl (KeyError ''value'')
                 | Some v \<Rightarrow>
                     (case scale_values ps of
                        Inl err \<Rightarrow> Inl err
                      | Inr vs \<Rightarrow> Inr (v # vs)))
           else scale_values ps))"

text \<open>
  The arguments the constructors take from the dictionary: \<open>u.Quantity\<close> of a
  unit-qualified string or of a number, and plain numbers and strings. A value of another
  kind is rejected here; the model does not follow it further.
\<close>

definition as_quantity :: "yaml \<Rightarrow> error + u_quantity" where
  "as_quantity v =
     (case v of
        YQty q \<Rightarrow> Inr q
      | YNum x \<Rightarrow> Inr (Quantity x dimensionless_unscaled)
      | _ \<Rightarrow> Inl (TypeError ''quantity''))"

definition as_num :: "yaml \<Rightarrow> error + real" where
  "as_num v = (case v of YNum x \<Rightarrow> Inr x | _ \<Rightarrow> Inl (TypeError ''number''))"

definition as_str :: "yaml \<Rightarrow> error + string" where
  "as_str v = (case v of YStr s \<Rightarrow> Inr s | _ \<Rightarrow> Inl (TypeError ''string''))"

definition arg_or :: "(string \<rightharpoonup> yaml) \<Rightarrow> string \<Rightarrow> yaml \<Rightarrow> yaml" where
  "arg_or data key dflt = (case data key of None \<Rightarrow> dflt | Some v \<Rightarrow> v)"

text \<open>
  \<open>cls(scale=scale, **data)\<close>: the keywords must be parameters of the constructor, \<open>mass\<close>
  and \<open>channel\<close> are required, and \<open>jfactor\<close>, \<open>z\<close> and \<open>k\<close> default to 1, 0 and 2.
\<close>

definition DarkMatterAnnihilationSpectralModel_cls ::
  "dm_env \<Rightarrow> yaml \<Rightarrow> (string \<rightharpoonup> yaml) \<Rightarrow> error + annihilation_model" where
  "DarkMatterAnnihilationSpectralModel_cls env scale data =
     (if \<not> dom data \<subseteq> {''mass'', ''channel'', ''jfactor'', ''z'', ''k''}
      then Inl (TypeError ''unexpected keyword argument'')
      else
        (case (data ''mass'', data ''channel'') of
           (Some m, Some c) \<Rightarrow>
             (case (as_quantity m, as_str c, as_num scale,
                    as_quantity (arg_or data ''jfactor'' (YNum 1)),
                    as_num (arg_or data ''z'' (YNum 0)),
                    as_num (arg_or data ''k'' (YNum 2))) of
                (Inr mass_arg, Inr channel, Inr s, Inr jfactor, Inr z, Inr k) \<Rightarrow>
                  DarkMatterAnnihilationSpectralModel_init env mass_arg channel s jfactor z k
              | _ \<Rightarrow> Inl (TypeError ''argument''))
         | _ \<Rightarrow> Inl (TypeError ''missing required argument'')))"

definition DarkMatterDecaySpectralModel_cls ::
  "dm_env \<Rightarrow> yaml \<Rightarrow> (string \<rightharpoonup> yaml) \<Rightarrow> error + decay_model" where
  "DarkMatterDecaySpectralModel_cls env scale data =
     (if \<not> dom data \<subseteq> {''mass'', ''channel'', ''jfactor'', ''z''}
      then Inl (TypeError ''unexpected keyword argument'')
      else
        (case (data ''mass'', data ''channel'') of
           (Some m, Some c) \<Rightarrow>
             (case (as_quantity m, as_str c, as_num scale,
                    as_quantity (arg_or data ''jfactor'' (YNum 1)),
                    as_num (arg_or data ''z'' (YNum 0))) of
                (Inr mass_arg, Inr channel, Inr s, Inr jfactor, Inr z) \<Rightarrow>
                  DarkMatterDecaySpectralModel_init env mass_arg channel s jfactor z
              | _ \<Rightarrow> Inl (TypeError ''argument''))
         | _ \<Rightarrow> Inl (TypeError ''missing required argument'')))"

text \<open>
  \<open>from_dict\<close> works on the dictionary under \<open>spectral\<close> itself, so each \<open>pop\<close> changes the
  argument of the caller. The result is the outcome together with the argument afterwards.
\<close>

definition DarkMatterAnnihilationSpectralModel_from_dict ::
  "dm_env \<Rightarrow> model_dict \<Rightarrow> (error + annihilation_model) \<times> model_dict" where
  "DarkMatterAnnihilationSpectralModel_from_dict env d =
     (case d ''spectral'' of
        None \<Rightarrow> (Inl (KeyError ''spectral''), d)
      | Some data \<Rightarrow>
          (case data ''type'' of
             None \<Rightarrow> (Inl (KeyError ''type''), d)
           | Some _ \<Rightarrow>
               (let data1 = data(''type'' := None); d1 = d(''spectral'' \<mapsto> data1) in
                case data1 ''parameters'' of
                  None \<Rightarrow> (Inl (KeyError ''parameters''), d1)
                | Some parameters \<Rightarrow>
                    (let data2 = data1(''parameters'' := None);
                         d2 = d(''spectral'' \<mapsto> data2)
                     in case parameters of
                          YParams ps \<Rightarrow>
                            (case scale_values ps of
                               Inl err \<Rightarrow> (Inl err, d2)
                             | Inr [] \<Rightarrow> (Inl IndexError, d2)
                             | Inr (scale # _) \<Rightarrow>
                                 (DarkMatterAnnihilationSpectralModel_cls env scale data2, d2))
                        | _ \<Rightarrow> (Inl (TypeError ''parameters''), d2)))))"

definition DarkMatterDecaySpectralModel_from_dict ::
  "dm_env \<Rightarrow> model_dict \<Rightarrow> (error + decay_model) \<times> model_dict" where
  "DarkMatterDecaySpectralModel_from_dict env d =
     (case d ''spectral'' of
        None \<Rightarrow> (Inl (KeyError ''spectral''), d)
      | Some data \<Rightarrow>
          (case data ''type'' of
             None \<Rightarrow> (Inl (KeyError ''type''), d)
           | Some _ \<Rightarrow>
               (let data1 = data(''type'' := None); d1 = d(''spectral'' \<mapsto> data1) in
                case data1 ''parameters'' of
                  None \<Rightarrow> (Inl (KeyError ''parameters''), d1)
                | Some parameters \<Rightarrow>
                    (let data2 = data1(''parameters'' := None);
                         d2 = d(''spectral'' \<mapsto> data2)
                     in case parameters of
                          YParams ps \<Rightarrow>
                            (case scale_values ps of
                               Inl err \<Rightarrow> (Inl err, d2)
                             | Inr [] \<Rightarrow> (Inl IndexError, d2)
                             | Inr (scale # _) \<Rightarrow>
                                 (DarkMatterDecaySpectralModel_cls env scale data2, d2))
                        | _ \<Rightarrow> (Inl (TypeError ''parameters''), d2)))))"

subsection \<open>A small instance\<close>

text \<open>
  A table with two masses and two values of \<open>log10x\<close>, one channel column, and an engine
  whose value depends on the data and on the coordinate; the instance the constructor
  builds from it for a mass of 100 GeV; and a model of each kind around that instance.
\<close>

definition example_env :: dm_env where
  "example_env =
     \<lparr>file_exists = True,
      table = [''mDM'' \<mapsto> [10, 10, 1000, 1000],
               ''Log[10,x]'' \<mapsto> [- 2, - 1, - 2, - 1],
               ''b'' \<mapsto> [1, 2, 3, 4]],
      interp_engine = (\<lambda>xs ms col lx m. sum_list col + lx)\<rparr>"

definition example_flux :: primary_flux where
  "example_flux =
     \<lparr>channel_attr = ''b'',
      template = \<lparr>log10x_axis = [- 2, - 1], mass_axis = [10, 1000], map_data = [1, 2, 3, 4],
                  extrapolate = True, fill_value = 0, values_scale = ''lin'',
                  interpolate = (\<lambda>lx m. sum_list [1, 2, 3, 4] + lx)\<rparr>,
      mass = \<lparr>p_value = 100, p_unit = GeV, p_min = 10, p_max = 1000, p_frozen = True\<rparr>\<rparr>"

definition example_annihilation :: annihilation_model where
  "example_annihilation =
     \<lparr>ann_k = 2, ann_z = 0, ann_mass = Quantity 100 GeV, ann_channel = ''b'',
      ann_jfactor = Quantity 2 dimensionless_unscaled, ann_primary_flux = example_flux,
      ann_scale = 1\<rparr>"

definition example_decay :: decay_model where
  "example_decay =
     \<lparr>dec_z = 0, dec_mass = Quantity 100 GeV, dec_channel = ''b'',
      dec_jfactor = Quantity 2 dimensionless_unscaled, dec_primary_flux = example_flux,
      dec_scale = 1\<rparr>"

text \<open>The dictionaries that \<open>to_dict\<close> writes for the two models.\<close>

definition example_annihilation_dict :: model_dict where
  "example_annihilation_dict =
     [''spectral'' \<mapsto>
        [''type'' \<mapsto> YStr ''DarkMatterAnnihilationSpectralModel'',
         ''parameters'' \<mapsto> YParams [[(''name'', YStr ''scale''), (''value'', YNum 1)]],
         ''channel'' \<mapsto> YStr ''b'',
         ''mass'' \<mapsto> YQty (Quantity 100 GeV),
         ''jfactor'' \<mapsto> YQty (Quantity 2 dimensionless_unscaled),
         ''z'' \<mapsto> YNum 0,
         ''k'' \<mapsto> YNum 2]]"

definition example_decay_dict :: model_dict where
  "example_decay_dict =
     [''spectral'' \<mapsto>
        [''type'' \<mapsto> YStr ''DarkMatterDecaySpectralModel'',
         ''parameters'' \<mapsto> YParams [[(''name'', YStr ''scale''), (''value'', YNum 1)]],
         ''channel'' \<mapsto> YStr ''b'',
         ''mass'' \<mapsto> YQty (Quantity 100 GeV),
         ''jfactor'' \<mapsto> YQty (Quantity 2 dimensionless_unscaled),
         ''z'' \<mapsto> YNum 0]]"

section \<open>Properties\<close>

subsection \<open>Auxiliary facts\<close>

lemma coord_dom:
  assumes "dom kwargs \<subseteq> {''mass''}"
  shows "dom ([''energy_true'' \<mapsto> e] ++ kwargs(''mass'' \<mapsto> m)) = {''energy_true'', ''mass''}"
  using assms by auto

lemma coord_energy:
  assumes "dom kwargs \<subseteq> {''mass''}"
  shows "([''energy_true'' \<mapsto> e] ++ kwargs(''mass'' \<mapsto> m)) ''energy_true'' = Some e"
proof -
  have "kwargs ''energy_true'' = None"
    using assms by (auto simp: dom_def subset_iff)
  then show ?thesis by (simp add: map_add_def)
qed

lemma coord_mass:
  "([''energy_true'' \<mapsto> e] ++ kwargs(''mass'' \<mapsto> m)) ''mass'' = Some m"
  by (simp add: map_add_def)

lemma template_eval_at:
  assumes "dom kwargs \<subseteq> {''mass''}"
  shows "TemplateNDSpectralModel_evaluate t (Quantity lx dimensionless_unscaled)
           (kwargs(''mass'' \<mapsto> Quantity m GeV)) =
         Inr (Quantity (interp_by_coord t lx m) dimensionless_unscaled)"
  unfolding TemplateNDSpectralModel_evaluate_def Let_def
  by (simp only: coord_dom[OF assms] coord_energy[OF assms] coord_mass)
     (simp add: quantity_to_def same_dimension_def Quantity_def dimensionless_unscaled_def GeV_def)

lemma np_log10_ratio:
  assumes "same_dimension (q_unit energy) GeV"
  shows "np_log10 (qdiv energy (PrimaryFlux_mDM self)) =
      Inr (Quantity (log 10 (q_value energy * u_scale (q_unit energy) / p_value (mass self)))
             dimensionless_unscaled)"
  using assms
  by (simp add: np_log10_def qdiv_def PrimaryFlux_mDM_def Quantity_def unit_div_def
      same_dimension_def GeV_def dimensionless_unscaled_def)

lemma PrimaryFlux_evaluate_eq:
  assumes "dom kwargs \<subseteq> {''mass''}" and "same_dimension (q_unit energy) GeV"
  shows "PrimaryFlux_evaluate self energy kwargs =
           Inr (Quantity
                  (interp_by_coord (template self)
                     (log 10 (q_value energy * u_scale (q_unit energy) / p_value (mass self)))
                     (p_value (mass self))
                   / (q_value energy * ln 10))
                  (unit_div dimensionless_unscaled (q_unit energy)))"
  unfolding PrimaryFlux_evaluate_def Let_def np_log10_ratio[OF assms(2)]
  by (simp add: PrimaryFlux_mDM_def template_eval_at[OF assms(1)])
     (simp add: qdiv_def qmul_num_def Quantity_def)

lemma mDM_setter_keeps:
  "PrimaryFlux_mDM_setter self0 m = (Inr u, self1) \<Longrightarrow>
     channel_attr self1 = channel_attr self0 \<and> template self1 = template self0
     \<and> p_unit (mass self1) = p_unit (mass self0)
     \<and> p_min (mass self1) = p_min (mass self0) \<and> p_max (mass self1) = p_max (mass self0)"
  unfolding PrimaryFlux_mDM_setter_def Let_def
  by (cases "quantity_to m (p_unit (mass self0))") (auto split: if_splits)

text \<open>What a successful construction has established.\<close>

lemma PrimaryFlux_init_Inr:
  assumes "PrimaryFlux_init env mDM c = Inr pf"
  shows "c \<in> set allowed_channels \<and> channel_attr pf = c
     \<and> (\<exists>mcol xcol col. table env ''mDM'' = Some mcol \<and> table env ''Log[10,x]'' = Some xcol
          \<and> template pf = \<lparr>log10x_axis = np_unique xcol, mass_axis = np_unique mcol,
                map_data = col, extrapolate = True, fill_value = 0, values_scale = ''lin'',
                interpolate = interp_engine env (np_unique xcol) (np_unique mcol) col\<rparr>
          \<and> np_unique xcol \<noteq> [] \<and> np_unique mcol \<noteq> [])
     \<and> p_unit (mass pf) = GeV"
proof -
  note d = PrimaryFlux_init_def
  have fe: "file_exists env"
    using assms unfolding d by (cases "file_exists env") simp_all
  obtain c' where cc: "check_channel c = Inr c'"
    using assms fe unfolding d by (cases "check_channel c") simp_all
  then have c': "c' = c" "c \<in> set allowed_channels"
    by (auto simp: check_channel_def split: if_splits)
  obtain mcol where mc: "table env ''mDM'' = Some mcol"
    using assms fe cc unfolding d by (cases "table env ''mDM''") simp_all
  obtain xcol where xc: "table env ''Log[10,x]'' = Some xcol"
    using assms fe cc mc unfolding d by (cases "table env ''Log[10,x]''") simp_all
  have ne: "\<not> (np_unique mcol = [] \<or> np_unique xcol = [])"
    using assms fe cc mc xc unfolding d Let_def
    by (cases "np_unique mcol = [] \<or> np_unique xcol = []") simp_all
  obtain cn where cn: "map_of channel_registry c' = Some cn"
    using assms fe cc mc xc ne unfolding d Let_def
    by (cases "map_of channel_registry c'") simp_all
  obtain col where col: "table env cn = Some col"
    using assms fe cc mc xc ne cn unfolding d Let_def
    by (cases "table env cn") simp_all
  have len: "length col = length (np_unique xcol) * length (np_unique mcol)"
    using assms fe cc mc xc ne cn col unfolding d Let_def
    by (cases "length col = length (np_unique xcol) * length (np_unique mcol)") simp_all
  define t where "t = \<lparr>log10x_axis = np_unique xcol, mass_axis = np_unique mcol,
                map_data = col, extrapolate = True, fill_value = 0, values_scale = ''lin'',
                interpolate = interp_engine env (np_unique xcol) (np_unique mcol) col\<rparr>"
  define self0 where "self0 = \<lparr>channel_attr = c', template = t,
                                mass = axis_parameter (np_unique mcol) GeV\<rparr>"
  have "(case PrimaryFlux_mDM_setter self0 mDM of
           (Inl err, _) \<Rightarrow> Inl err
         | (Inr _, self1) \<Rightarrow> Inr (self1\<lparr>mass := (mass self1)\<lparr>p_frozen := True\<rparr>\<rparr>)) = Inr pf"
    using assms fe cc mc xc ne cn col len unfolding d Let_def t_def self0_def
    by simp
  then obtain u self1 where s1: "PrimaryFlux_mDM_setter self0 mDM = (Inr u, self1)"
      and pf: "pf = self1\<lparr>mass := (mass self1)\<lparr>p_frozen := True\<rparr>\<rparr>"
    by (cases "PrimaryFlux_mDM_setter self0 mDM"; cases "fst (PrimaryFlux_mDM_setter self0 mDM)")
       auto
  from mDM_setter_keeps[OF s1] have "channel_attr self1 = c'" "template self1 = t"
      "p_unit (mass self1) = GeV"
    by (simp_all add: self0_def axis_parameter_def)
  with pf c' mc xc ne show ?thesis
    by (simp add: t_def)
qed

lemma PrimaryFlux_init_invalid_channel:
  assumes "file_exists env" and "c \<notin> set allowed_channels"
  shows "PrimaryFlux_init env mDM c =
           Inl (ValueError [Lit ''Invalid channel: '', FStr c, Lit ''\<newline>Available: '',
                  FList allowed_channels, Lit ''\<newline>''])"
proof -
  have "check_channel c =
           Inl (ValueError [Lit ''Invalid channel: '', FStr c, Lit ''\<newline>Available: '',
                  FList allowed_channels, Lit ''\<newline>''])"
    using assms(2) by (simp add: check_channel_def)
  with assms(1) show ?thesis
    unfolding PrimaryFlux_init_def by simp
qed

lemma allowed_channels_eq:
  "allowed_channels =
     [''eL'', ''eR'', ''e'', ''muL'', ''muR'', ''mu'', ''tauL'', ''tauR'', ''tau'', ''q'', ''c'',
      ''b'', ''t'', ''WL'', ''WT'', ''W'', ''ZL'', ''ZT'', ''Z'', ''g'', ''gamma'', ''h'', ''nu_e'',
      ''nu_mu'', ''nu_tau'', ''V->e'', ''V->mu'', ''V->tau'']"
  by (simp add: allowed_channels_def channel_registry_def)

lemma length_allowed_channels: "length allowed_channels = 28"
  by (simp add: allowed_channels_eq)

lemma log10_100: "log 10 100 = 2"
proof -
  have "log 10 ((10::real) ^ 2) = real 2 * log 10 10"
    by (rule log_nat_power) simp
  then show ?thesis by simp
qed

lemma log10_hundredth: "log 10 (1 / 100) = - 2"
  by (simp add: log_divide log10_100)

text \<open>The constructor builds the small instance from the small table.\<close>

lemma example_check_channel: "check_channel ''b'' = Inr ''b''"
  by (simp add: check_channel_def allowed_channels_eq)

lemma example_registry: "map_of channel_registry ''b'' = Some ''b''"
  by (simp add: channel_registry_def)

lemma example_unique:
  "np_unique [10, 10, 1000, 1000] = [10, 1000]" "np_unique [- 2, - 1, - 2, - 1] = [- 2, - 1]"
  by (simp_all add: np_unique_def)

lemma example_setter:
  "PrimaryFlux_mDM_setter
     \<lparr>channel_attr = c, template = t, mass = axis_parameter [10, 1000] GeV\<rparr> (Quantity 100 GeV)
   = (Inr (), \<lparr>channel_attr = c, template = t,
        mass = \<lparr>p_value = 100, p_unit = GeV, p_min = 10, p_max = 1000, p_frozen = False\<rparr>\<rparr>)"
  by (simp add: PrimaryFlux_mDM_setter_def axis_parameter_def quantity_to_def same_dimension_def
      Quantity_def GeV_def Let_def)

lemma example_init:
  "PrimaryFlux_init example_env (Quantity 100 GeV) ''b'' = Inr example_flux"
  unfolding PrimaryFlux_init_def
  by (simp add: example_env_def example_check_channel example_registry example_unique
      example_setter example_flux_def)

lemma example_energy: "same_dimension (q_unit (Quantity v GeV)) GeV"
  by (simp add: same_dimension_def Quantity_def)

lemma example_no_kwargs: "dom (Map.empty :: string \<rightharpoonup> u_quantity) \<subseteq> {''mass''}"
  by simp

lemma example_evaluate:
  "PrimaryFlux_evaluate example_flux (Quantity 1 GeV) Map.empty
    = Inr (Quantity (8 / ln 10) (unit_div dimensionless_unscaled GeV))"
  unfolding PrimaryFlux_evaluate_eq[OF example_no_kwargs example_energy]
  by (simp add: Quantity_def GeV_def example_flux_def interp_by_coord_def in_axis_def
      log10_hundredth)

lemma example_call:
  "PrimaryFlux_call example_flux (qmul_num (Quantity 1 GeV) (1 + 0))
    = Inr (Quantity (8 / ln 10) (unit_div dimensionless_unscaled GeV))"
proof -
  have "qmul_num (Quantity 1 GeV) (1 + 0) = Quantity 1 GeV"
    by (simp add: qmul_num_def Quantity_def)
  moreover have "dom [''mass'' \<mapsto> p_quantity (mass example_flux)] \<subseteq> {''mass''}"
    by simp
  ultimately show ?thesis
    unfolding PrimaryFlux_call_def
    by (simp add: PrimaryFlux_evaluate_eq example_energy)
       (simp add: Quantity_def GeV_def example_flux_def interp_by_coord_def in_axis_def
         log10_hundredth)
qed

subsection \<open>The primary flux\<close>

text \<open>
  C1. For an energy given in an energy unit (and no keyword besides the mass),
  \<open>evaluate\<close> takes \<open>log10x\<close>, the decimal logarithm of the ratio of the energy to the mass
  \<open>mDM\<close> (both in GeV), queries the grid of the template at (\<open>log10x\<close>, \<open>mDM\<close>) for the yield
  per decade, and returns that yield divided by the energy times \<open>ln 10\<close>, in the inverse
  of the unit of the energy.
\<close>

theorem PrimaryFlux_evaluate_jacobian:
  assumes "dom kwargs \<subseteq> {''mass''}" and "same_dimension (q_unit energy) GeV"
  shows "\<exists>log10x dN_dlogx.
           np_log10 (qdiv energy (PrimaryFlux_mDM self)) = Inr log10x
         \<and> q_value log10x =
             log 10 (q_value energy * u_scale (q_unit energy) / q_value (PrimaryFlux_mDM self))
         \<and> TemplateNDSpectralModel_evaluate (template self) log10x
               (kwargs(''mass'' \<mapsto> PrimaryFlux_mDM self)) = Inr dN_dlogx
         \<and> q_value dN_dlogx =
             interp_by_coord (template self) (q_value log10x) (q_value (PrimaryFlux_mDM self))
         \<and> PrimaryFlux_evaluate self energy kwargs =
             Inr (Quantity (q_value dN_dlogx / (q_value energy * ln 10))
                    (unit_div dimensionless_unscaled (q_unit energy)))"
proof -
  let ?lx = "log 10 (q_value energy * u_scale (q_unit energy) / p_value (mass self))"
  let ?y = "interp_by_coord (template self) ?lx (p_value (mass self))"
  have m: "q_value (PrimaryFlux_mDM self) = p_value (mass self)"
    by (simp add: PrimaryFlux_mDM_def Quantity_def)
  have "np_log10 (qdiv energy (PrimaryFlux_mDM self)) = Inr (Quantity ?lx dimensionless_unscaled)"
    by (rule np_log10_ratio[OF assms(2)])
  moreover have "q_value (Quantity ?lx dimensionless_unscaled) = ?lx"
    by (simp add: Quantity_def)
  moreover have "TemplateNDSpectralModel_evaluate (template self)
        (Quantity ?lx dimensionless_unscaled) (kwargs(''mass'' \<mapsto> PrimaryFlux_mDM self))
      = Inr (Quantity ?y dimensionless_unscaled)"
    unfolding PrimaryFlux_mDM_def by (rule template_eval_at[OF assms(1)])
  moreover have "q_value (Quantity ?y dimensionless_unscaled) = ?y"
    by (simp add: Quantity_def)
  moreover have "PrimaryFlux_evaluate self energy kwargs =
      Inr (Quantity (?y / (q_value energy * ln 10))
             (unit_div dimensionless_unscaled (q_unit energy)))"
    by (rule PrimaryFlux_evaluate_eq[OF assms])
  ultimately show ?thesis
    unfolding m by (intro exI[of _ "Quantity ?lx dimensionless_unscaled"]
        exI[of _ "Quantity ?y dimensionless_unscaled"]) simp
qed

theorem PrimaryFlux_evaluate_jacobian_witness:
  "dom (Map.empty :: string \<rightharpoonup> u_quantity) \<subseteq> {''mass''}
   \<and> same_dimension (q_unit (Quantity 1 GeV)) GeV
   \<and> PrimaryFlux_evaluate example_flux (Quantity 1 GeV) Map.empty =
       Inr (Quantity (8 / ln 10) (unit_div dimensionless_unscaled GeV))"
proof -
  from PrimaryFlux_evaluate_jacobian[OF example_no_kwargs example_energy, of 1 example_flux]
  obtain log10x :: u_quantity and dN_dlogx :: u_quantity where
    l: "q_value log10x =
          log 10 (q_value (Quantity 1 GeV) * u_scale (q_unit (Quantity 1 GeV))
                    / q_value (PrimaryFlux_mDM example_flux))"
    and y: "q_value dN_dlogx =
          interp_by_coord (template example_flux) (q_value log10x)
            (q_value (PrimaryFlux_mDM example_flux))"
    and r: "PrimaryFlux_evaluate example_flux (Quantity 1 GeV) Map.empty =
          Inr (Quantity (q_value dN_dlogx / (q_value (Quantity 1 GeV) * ln 10))
                 (unit_div dimensionless_unscaled (q_unit (Quantity 1 GeV))))"
    by blast
  have "q_value log10x = - 2"
    unfolding l
    by (simp add: Quantity_def GeV_def PrimaryFlux_mDM_def example_flux_def log10_hundredth)
  then have "q_value dN_dlogx = 8"
    unfolding y
    by (simp add: Quantity_def PrimaryFlux_mDM_def example_flux_def interp_by_coord_def
        in_axis_def)
  with r have "PrimaryFlux_evaluate example_flux (Quantity 1 GeV) Map.empty =
       Inr (Quantity (8 / ln 10) (unit_div dimensionless_unscaled GeV))"
    by (simp add: Quantity_def)
  with example_no_kwargs example_energy show ?thesis by simp
qed

subsection \<open>The annihilation and the decay formula\<close>

text \<open>
  C2. The annihilation model evaluates the primary flux at the energy times \<open>1 + z\<close>; an
  error of that evaluation is the result, and otherwise the flux is
  \<open>scale * jfactor * sigma_v * dN/dE / (k * mass\<^sup>2 * 4 pi)\<close> with the constant
  \<open>sigma_v = 3e-26 cm\<^sup>3 s\<^sup>-\<^sup>1\<close>, in the composed unit.
\<close>

theorem annihilation_evaluate_formula:
  "q_value THERMAL_RELIC_CROSS_SECTION = 3 / 10 ^ 26
   \<and> q_unit THERMAL_RELIC_CROSS_SECTION = cm3_per_s
   \<and> DarkMatterAnnihilationSpectralModel_evaluate self energy scale =
     (case PrimaryFlux_call (ann_primary_flux self) (qmul_num energy (1 + ann_z self)) of
        Inl err \<Rightarrow> Inl err
      | Inr dN_dE \<Rightarrow>
          Inr (Quantity
                 (scale * q_value (ann_jfactor self) * q_value THERMAL_RELIC_CROSS_SECTION
                    * q_value dN_dE
                    / (ann_k self * (q_value (ann_mass self))\<^sup>2 * (4 * pi)))
                 (unit_div
                    (unit_mul (unit_mul (q_unit (ann_jfactor self)) cm3_per_s) (q_unit dN_dE))
                    (unit_mul (q_unit (ann_mass self)) (q_unit (ann_mass self))))))"
  by (simp add: DarkMatterAnnihilationSpectralModel_evaluate_def THERMAL_RELIC_CROSS_SECTION_def
      qdiv_num_def qdiv_def qmul_def num_qmul_def Quantity_def unit_div_def unit_mul_def
      power2_eq_square split: sum.splits)

theorem annihilation_evaluate_formula_witness:
  "DarkMatterAnnihilationSpectralModel_evaluate example_annihilation (Quantity 1 GeV) 1 =
     Inr (Quantity (1 * 2 * (3 / 10 ^ 26) * (8 / ln 10) / (2 * 100\<^sup>2 * (4 * pi)))
            (unit_div
               (unit_mul (unit_mul dimensionless_unscaled cm3_per_s)
                  (unit_div dimensionless_unscaled GeV))
               (unit_mul GeV GeV)))"
proof -
  have c: "PrimaryFlux_call (ann_primary_flux example_annihilation)
             (qmul_num (Quantity 1 GeV) (1 + ann_z example_annihilation))
           = Inr (Quantity (8 / ln 10) (unit_div dimensionless_unscaled GeV))"
    using example_call by (simp add: example_annihilation_def)
  have v: "q_value (Quantity (8 / ln 10) (unit_div dimensionless_unscaled GeV)) = 8 / ln 10"
      "q_unit (Quantity (8 / ln 10) (unit_div dimensionless_unscaled GeV))
         = unit_div dimensionless_unscaled GeV"
    by (simp_all add: Quantity_def)
  have f: "ann_k example_annihilation = 2" "ann_jfactor example_annihilation
       = Quantity 2 dimensionless_unscaled" "ann_mass example_annihilation = Quantity 100 GeV"
    by (simp_all add: example_annihilation_def)
  have q: "q_value (Quantity 2 dimensionless_unscaled) = 2"
      "q_unit (Quantity 2 dimensionless_unscaled) = dimensionless_unscaled"
      "q_value (Quantity 100 GeV) = 100" "q_unit (Quantity 100 GeV) = GeV"
    by (simp_all add: Quantity_def)
  from annihilation_evaluate_formula[of example_annihilation "Quantity 1 GeV" 1]
  show ?thesis
    unfolding c f by (simp only: sum.case v q)
qed

text \<open>
  C3. The decay model evaluates the primary flux at the energy times \<open>1 + z\<close>; an error of
  that evaluation is the result, and otherwise the flux is
  \<open>scale * jfactor * dN/dE / (tau * mass * 4 pi)\<close> with the constant \<open>tau = 4.3e17 s\<close>. The
  record of the decay model has no field \<open>k\<close>.
\<close>

theorem decay_evaluate_formula:
  "q_value LIFETIME_AGE_OF_UNIVERSE = 43 * 10 ^ 16
   \<and> q_unit LIFETIME_AGE_OF_UNIVERSE = second
   \<and> DarkMatterDecaySpectralModel_evaluate self energy scale =
     (case PrimaryFlux_call (dec_primary_flux self) (qmul_num energy (1 + dec_z self)) of
        Inl err \<Rightarrow> Inl err
      | Inr dN_dE \<Rightarrow>
          Inr (Quantity
                 (scale * q_value (dec_jfactor self) * q_value dN_dE
                    / (q_value LIFETIME_AGE_OF_UNIVERSE * q_value (dec_mass self) * (4 * pi)))
                 (unit_div
                    (unit_mul (q_unit (dec_jfactor self)) (q_unit dN_dE))
                    (unit_mul second (q_unit (dec_mass self))))))"
  by (simp add: DarkMatterDecaySpectralModel_evaluate_def LIFETIME_AGE_OF_UNIVERSE_def
      qdiv_num_def qdiv_def qmul_def num_qmul_def Quantity_def unit_div_def unit_mul_def
      split: sum.splits)

theorem decay_evaluate_formula_witness:
  "DarkMatterDecaySpectralModel_evaluate example_decay (Quantity 1 GeV) 1 =
     Inr (Quantity (1 * 2 * (8 / ln 10) / (43 * 10 ^ 16 * 100 * (4 * pi)))
            (unit_div
               (unit_mul dimensionless_unscaled (unit_div dimensionless_unscaled GeV))
               (unit_mul second GeV)))"
proof -
  have c: "PrimaryFlux_call (dec_primary_flux example_decay)
             (qmul_num (Quantity 1 GeV) (1 + dec_z example_decay))
           = Inr (Quantity (8 / ln 10) (unit_div dimensionless_unscaled GeV))"
    using example_call by (simp add: example_decay_def)
  have v: "q_value (Quantity (8 / ln 10) (unit_div dimensionless_unscaled GeV)) = 8 / ln 10"
      "q_unit (Quantity (8 / ln 10) (unit_div dimensionless_unscaled GeV))
         = unit_div dimensionless_unscaled GeV"
    by (simp_all add: Quantity_def)
  have f: "dec_jfactor example_decay = Quantity 2 dimensionless_unscaled"
      "dec_mass example_decay = Quantity 100 GeV"
    by (simp_all add: example_decay_def)
  have q: "q_value (Quantity 2 dimensionless_unscaled) = 2"
      "q_unit (Quantity 2 dimensionless_unscaled) = dimensionless_unscaled"
      "q_value (Quantity 100 GeV) = 100" "q_unit (Quantity 100 GeV) = GeV"
    by (simp_all add: Quantity_def)
  from decay_evaluate_formula[of example_decay "Quantity 1 GeV" 1]
  show ?thesis
    unfolding c f by (simp only: sum.case v q)
qed

subsection \<open>Energies outside the table\<close>

text \<open>
  C4. For an instance that the constructor has built, the template carries the
  extrapolation flag and the fill value 0, and an energy whose \<open>log10x\<close> lies below the
  first or above the last tabulated value is not an error: \<open>evaluate\<close> returns the flux 0.
  In particular, where the table ends below \<open>log10x = 0\<close>, every energy with
  \<open>x = E / mass \<ge> 1\<close> gives the flux 0. (At the last tabulated value itself the result is
  the interpolated one.)
\<close>

theorem out_of_range_gives_zero:
  assumes "PrimaryFlux_init env mDM c = Inr self"
    and "same_dimension (q_unit energy) GeV"
    and "dom kwargs \<subseteq> {''mass''}"
    and "x = q_value energy * u_scale (q_unit energy) / p_value (mass self)"
  shows "extrapolate (template self) \<and> fill_value (template self) = 0
     \<and> (log 10 x < hd (log10x_axis (template self))
          \<or> last (log10x_axis (template self)) < log 10 x \<longrightarrow>
         PrimaryFlux_evaluate self energy kwargs =
           Inr (Quantity 0 (unit_div dimensionless_unscaled (q_unit energy))))
     \<and> (last (log10x_axis (template self)) < 0 \<and> 1 \<le> x \<longrightarrow>
         PrimaryFlux_evaluate self energy kwargs =
           Inr (Quantity 0 (unit_div dimensionless_unscaled (q_unit energy))))"
proof -
  from PrimaryFlux_init_Inr[OF assms(1)]
  have t: "extrapolate (template self)" "fill_value (template self) = 0"
    by auto
  have out: "log 10 x < hd (log10x_axis (template self))
          \<or> last (log10x_axis (template self)) < log 10 x \<Longrightarrow>
         PrimaryFlux_evaluate self energy kwargs =
           Inr (Quantity 0 (unit_div dimensionless_unscaled (q_unit energy)))"
    unfolding PrimaryFlux_evaluate_eq[OF assms(3) assms(2)] assms(4)
    using t(2) by (auto simp: interp_by_coord_def in_axis_def)
  have "1 \<le> x \<Longrightarrow> 0 \<le> log 10 x"
    by simp
  with out t show ?thesis by fastforce
qed

theorem out_of_range_gives_zero_witness:
  "PrimaryFlux_init example_env (Quantity 100 GeV) ''b'' = Inr example_flux
   \<and> last (log10x_axis (template example_flux)) < 0
   \<and> PrimaryFlux_evaluate example_flux (Quantity 1 TeV) Map.empty =
       Inr (Quantity 0 (unit_div dimensionless_unscaled TeV))"
proof -
  have d: "same_dimension (q_unit (Quantity 1 TeV)) GeV"
    by (simp add: same_dimension_def Quantity_def GeV_def TeV_def)
  have x: "10 = q_value (Quantity 1 TeV) * u_scale (q_unit (Quantity 1 TeV))
                  / p_value (mass example_flux)"
    by (simp add: Quantity_def TeV_def example_flux_def)
  have l: "last (log10x_axis (template example_flux)) < 0"
    by (simp add: example_flux_def)
  have u: "q_unit (Quantity 1 TeV) = TeV"
    by (simp add: Quantity_def)
  from out_of_range_gives_zero[OF example_init d example_no_kwargs x] l
  have "PrimaryFlux_evaluate example_flux (Quantity 1 TeV) Map.empty =
       Inr (Quantity 0 (unit_div dimensionless_unscaled (q_unit (Quantity 1 TeV))))"
    by simp
  with example_init l u show ?thesis by simp
qed

subsection \<open>The setters\<close>

text \<open>
  C5. The setter of \<open>mDM\<close> converts a mass given in an energy unit to the unit of the mass
  parameter. If the converted value is below the minimum or above the maximum of the
  parameter, the setter raises the error whose message names both bounds, and the
  instance, with the mass it held, is unchanged; if the value lies between the bounds,
  the bounds included, the setter stores it and raises nothing.
\<close>

theorem mDM_setter_bounds:
  assumes "same_dimension (q_unit m) (p_unit (mass self))"
    and "v = q_value m * u_scale (q_unit m) / u_scale (p_unit (mass self))"
  shows "(v < p_min (mass self) \<or> v > p_max (mass self) \<longrightarrow>
            fst (PrimaryFlux_mDM_setter self m) =
              Inl (ValueError
                     [Lit ''The mass '', FQty (Quantity v (p_unit (mass self))),
                      Lit '' is out of the bounds of the model. Please choose a mass between '',
                      FQty (Quantity (p_min (mass self)) (p_unit (mass self))),
                      Lit '' < `mDM` < '',
                      FQty (Quantity (p_max (mass self)) (p_unit (mass self)))])
            \<and> snd (PrimaryFlux_mDM_setter self m) = self
            \<and> PrimaryFlux_mDM (snd (PrimaryFlux_mDM_setter self m)) = PrimaryFlux_mDM self)
       \<and> (p_min (mass self) \<le> v \<and> v \<le> p_max (mass self) \<longrightarrow>
            PrimaryFlux_mDM_setter self m = (Inr (), self\<lparr>mass := (mass self)\<lparr>p_value := v\<rparr>\<rparr>)
            \<and> PrimaryFlux_mDM (snd (PrimaryFlux_mDM_setter self m)) = Quantity v GeV)"
  using assms
  by (auto simp: PrimaryFlux_mDM_setter_def quantity_to_def Let_def Quantity_def
      PrimaryFlux_mDM_def)

theorem mDM_setter_bounds_witness:
  "same_dimension (q_unit (Quantity 1 TeV)) (p_unit (mass example_flux))
   \<and> PrimaryFlux_mDM_setter example_flux (Quantity 1 TeV) =
       (Inr (), example_flux\<lparr>mass := (mass example_flux)\<lparr>p_value := 1000\<rparr>\<rparr>)
   \<and> fst (PrimaryFlux_mDM_setter example_flux (Quantity 2 TeV)) =
       Inl (ValueError
              [Lit ''The mass '', FQty (Quantity 2000 GeV),
               Lit '' is out of the bounds of the model. Please choose a mass between '',
               FQty (Quantity 10 GeV), Lit '' < `mDM` < '', FQty (Quantity 1000 GeV)])
   \<and> snd (PrimaryFlux_mDM_setter example_flux (Quantity 2 TeV)) = example_flux
   \<and> PrimaryFlux_mDM (snd (PrimaryFlux_mDM_setter example_flux (Quantity 2 TeV))) =
       Quantity 100 GeV"
proof -
  have d: "same_dimension (q_unit (Quantity w TeV)) (p_unit (mass example_flux))" for w
    by (simp add: same_dimension_def Quantity_def GeV_def TeV_def example_flux_def)
  have v1: "1000 = q_value (Quantity 1 TeV) * u_scale (q_unit (Quantity 1 TeV))
                     / u_scale (p_unit (mass example_flux))"
    by (simp add: Quantity_def GeV_def TeV_def example_flux_def)
  have v2: "2000 = q_value (Quantity 2 TeV) * u_scale (q_unit (Quantity 2 TeV))
                     / u_scale (p_unit (mass example_flux))"
    by (simp add: Quantity_def GeV_def TeV_def example_flux_def)
  have f: "p_min (mass example_flux) = 10" "p_max (mass example_flux) = 1000"
      "p_unit (mass example_flux) = GeV" "PrimaryFlux_mDM example_flux = Quantity 100 GeV"
    by (simp_all add: example_flux_def PrimaryFlux_mDM_def)
  from mDM_setter_bounds[OF d v1] mDM_setter_bounds[OF d v2] d[of 1]
  show ?thesis
    by (simp add: f)
qed

text \<open>
  C6. The setter of the channel succeeds exactly for the keys of the registry and then
  stores the channel. For any other string it raises the error whose message lists the
  allowed channels, all 28 keys of the registry, and leaves the instance unchanged. The
  constructor, once it has found the data file, raises the same error for such a string,
  and an instance it returns holds a key of the registry as its channel.
\<close>

theorem channel_setter_registry:
  "(fst (PrimaryFlux_channel_setter self c) = Inr () \<longleftrightarrow> c \<in> fst ` set channel_registry)
   \<and> (c \<in> fst ` set channel_registry \<longrightarrow>
         PrimaryFlux_channel_setter self c = (Inr (), self\<lparr>channel_attr := c\<rparr>))
   \<and> (c \<notin> fst ` set channel_registry \<longrightarrow>
         PrimaryFlux_channel_setter self c =
           (Inl (ValueError [Lit ''Invalid channel: '', FStr c, Lit ''\<newline>Available: '',
                   FList (map fst channel_registry), Lit ''\<newline>'']), self)
         \<and> (file_exists env \<longrightarrow>
               PrimaryFlux_init env mDM c =
                 Inl (ValueError [Lit ''Invalid channel: '', FStr c, Lit ''\<newline>Available: '',
                        FList (map fst channel_registry), Lit ''\<newline>''])))
   \<and> (\<forall>pf. PrimaryFlux_init env mDM c = Inr pf \<longrightarrow>
         c \<in> fst ` set channel_registry \<and> channel_attr pf = c)
   \<and> length (map fst channel_registry) = 28"
proof -
  have k: "fst ` set channel_registry = set allowed_channels"
    by (simp add: allowed_channels_def)
  have a: "map fst channel_registry = allowed_channels"
    by (simp add: allowed_channels_def)
  have i: "\<forall>pf. PrimaryFlux_init env mDM c = Inr pf \<longrightarrow>
         c \<in> set allowed_channels \<and> channel_attr pf = c"
    using PrimaryFlux_init_Inr[of env mDM c] by blast
  have s: "c \<in> set allowed_channels \<Longrightarrow>
      PrimaryFlux_channel_setter self c = (Inr (), self\<lparr>channel_attr := c\<rparr>)"
    by (simp add: PrimaryFlux_channel_setter_def check_channel_def)
  have f: "c \<notin> set allowed_channels \<Longrightarrow>
      PrimaryFlux_channel_setter self c =
           (Inl (ValueError [Lit ''Invalid channel: '', FStr c, Lit ''\<newline>Available: '',
                   FList allowed_channels, Lit ''\<newline>'']), self)"
    by (simp add: PrimaryFlux_channel_setter_def check_channel_def)
  have iff: "fst (PrimaryFlux_channel_setter self c) = Inr () \<longleftrightarrow> c \<in> set allowed_channels"
    using s f by (cases "c \<in> set allowed_channels") simp_all
  show ?thesis
    unfolding k a
    using i s f iff PrimaryFlux_init_invalid_channel[of env c mDM] length_allowed_channels
    by blast
qed

theorem channel_setter_registry_witness:
  "''tau'' \<in> fst ` set channel_registry
   \<and> PrimaryFlux_channel_setter example_flux ''tau'' =
       (Inr (), example_flux\<lparr>channel_attr := ''tau''\<rparr>)
   \<and> ''foo'' \<notin> fst ` set channel_registry
   \<and> PrimaryFlux_channel_setter example_flux ''foo'' =
       (Inl (ValueError [Lit ''Invalid channel: '', FStr ''foo'', Lit ''\<newline>Available: '',
               FList (map fst channel_registry), Lit ''\<newline>'']), example_flux)
   \<and> file_exists example_env
   \<and> PrimaryFlux_init example_env (Quantity 100 GeV) ''foo'' =
       Inl (ValueError [Lit ''Invalid channel: '', FStr ''foo'', Lit ''\<newline>Available: '',
              FList (map fst channel_registry), Lit ''\<newline>''])"
proof -
  have k: "fst ` set channel_registry = set allowed_channels"
    by (simp add: allowed_channels_def)
  have t: "''tau'' \<in> fst ` set channel_registry"
    unfolding k by (simp add: allowed_channels_eq)
  have n: "''foo'' \<notin> fst ` set channel_registry"
    unfolding k by (simp add: allowed_channels_eq)
  have e: "file_exists example_env"
    by (simp add: example_env_def)
  from channel_setter_registry[of example_flux "''tau''" example_env "Quantity 100 GeV"]
    channel_setter_registry[of example_flux "''foo''" example_env "Quantity 100 GeV"] t n e
  show ?thesis by blast
qed

subsection \<open>Serialisation\<close>

lemma ann_to_dict_eq:
  "DarkMatterAnnihilationSpectralModel_to_dict M =
     Inr [''spectral'' \<mapsto>
            [''type'' \<mapsto> YStr ''DarkMatterAnnihilationSpectralModel'',
             ''parameters'' \<mapsto>
                YParams [[(''name'', YStr ''scale''), (''value'', YNum (ann_scale M))]],
             ''channel'' \<mapsto> YStr (ann_channel M),
             ''mass'' \<mapsto> YQty (ann_mass M),
             ''jfactor'' \<mapsto> YQty (ann_jfactor M),
             ''z'' \<mapsto> YNum (ann_z M),
             ''k'' \<mapsto> YNum (ann_k M)]]"
  by (simp add: DarkMatterAnnihilationSpectralModel_to_dict_def SpectralModel_to_dict_def)

lemma ann_popped_data:
  "([''type'' \<mapsto> ty, ''parameters'' \<mapsto> ps, ''channel'' \<mapsto> c, ''mass'' \<mapsto> m,
     ''jfactor'' \<mapsto> j, ''z'' \<mapsto> z, ''k'' \<mapsto> k])(''type'' := None, ''parameters'' := None)
   = [''channel'' \<mapsto> c, ''mass'' \<mapsto> m, ''jfactor'' \<mapsto> j, ''z'' \<mapsto> z, ''k'' \<mapsto> k]"
  by (rule ext) simp

lemma dec_popped_data:
  "([''type'' \<mapsto> ty, ''parameters'' \<mapsto> ps, ''channel'' \<mapsto> c, ''mass'' \<mapsto> m,
     ''jfactor'' \<mapsto> j, ''z'' \<mapsto> z])(''type'' := None, ''parameters'' := None)
   = [''channel'' \<mapsto> c, ''mass'' \<mapsto> m, ''jfactor'' \<mapsto> j, ''z'' \<mapsto> z]"
  by (rule ext) simp

lemma ann_cls_eq:
  "DarkMatterAnnihilationSpectralModel_cls env (YNum s)
     [''channel'' \<mapsto> YStr c, ''mass'' \<mapsto> YQty m, ''jfactor'' \<mapsto> YQty j,
      ''z'' \<mapsto> YNum z, ''k'' \<mapsto> YNum k] =
   DarkMatterAnnihilationSpectralModel_init env m c s j z k"
  by (simp add: DarkMatterAnnihilationSpectralModel_cls_def as_quantity_def as_num_def as_str_def
      arg_or_def)

lemma dec_cls_eq:
  "DarkMatterDecaySpectralModel_cls env (YNum s)
     [''channel'' \<mapsto> YStr c, ''mass'' \<mapsto> YQty m, ''jfactor'' \<mapsto> YQty j, ''z'' \<mapsto> YNum z] =
   DarkMatterDecaySpectralModel_init env m c s j z"
  by (simp add: DarkMatterDecaySpectralModel_cls_def as_quantity_def as_num_def as_str_def
      arg_or_def)

lemma ann_from_dict_eq:
  "DarkMatterAnnihilationSpectralModel_from_dict env
      [''spectral'' \<mapsto>
            [''type'' \<mapsto> ty,
             ''parameters'' \<mapsto> YParams [[(''name'', YStr ''scale''), (''value'', YNum s)]],
             ''channel'' \<mapsto> YStr c,
             ''mass'' \<mapsto> YQty m,
             ''jfactor'' \<mapsto> YQty j,
             ''z'' \<mapsto> YNum z,
             ''k'' \<mapsto> YNum k]] =
   (DarkMatterAnnihilationSpectralModel_init env m c s j z k,
    [''spectral'' \<mapsto>
       [''channel'' \<mapsto> YStr c, ''mass'' \<mapsto> YQty m, ''jfactor'' \<mapsto> YQty j,
        ''z'' \<mapsto> YNum z, ''k'' \<mapsto> YNum k]])"
  unfolding DarkMatterAnnihilationSpectralModel_from_dict_def Let_def
  by (simp add: ann_popped_data ann_cls_eq)

lemma dec_from_dict_eq:
  "DarkMatterDecaySpectralModel_from_dict env
      [''spectral'' \<mapsto>
            [''type'' \<mapsto> ty,
             ''parameters'' \<mapsto> YParams [[(''name'', YStr ''scale''), (''value'', YNum s)]],
             ''channel'' \<mapsto> YStr c,
             ''mass'' \<mapsto> YQty m,
             ''jfactor'' \<mapsto> YQty j,
             ''z'' \<mapsto> YNum z]] =
   (DarkMatterDecaySpectralModel_init env m c s j z,
    [''spectral'' \<mapsto>
       [''channel'' \<mapsto> YStr c, ''mass'' \<mapsto> YQty m, ''jfactor'' \<mapsto> YQty j,
        ''z'' \<mapsto> YNum z]])"
  unfolding DarkMatterDecaySpectralModel_from_dict_def Let_def
  by (simp add: dec_popped_data dec_cls_eq)

lemma example_annihilation_init:
  "DarkMatterAnnihilationSpectralModel_init example_env (Quantity 100 GeV) ''b'' 1
     (Quantity 2 dimensionless_unscaled) 0 2 = Inr example_annihilation"
  by (simp add: DarkMatterAnnihilationSpectralModel_init_def example_init
      example_annihilation_def)

lemma example_decay_init:
  "DarkMatterDecaySpectralModel_init example_env (Quantity 100 GeV) ''b'' 1
     (Quantity 2 dimensionless_unscaled) 0 = Inr example_decay"
  by (simp add: DarkMatterDecaySpectralModel_init_def example_init example_decay_def)

text \<open>
  C7. Take an annihilation model as its constructor leaves it: its primary flux is the
  one the constructor builds, from the same data, for its mass and channel; its scale may
  be any value. Then \<open>to_dict\<close> succeeds and writes the type, the parameters, the channel,
  the mass, the J factor, \<open>z\<close> and \<open>k\<close>, and nothing of the primary flux; \<open>from_dict\<close> on
  that dictionary succeeds and returns a model with the same channel, mass, J factor, \<open>z\<close>,
  \<open>k\<close> and scale, indeed the same model, so that \<open>evaluate\<close> agrees at every energy and
  scale. The strings of the mass and the J factor are taken to read back as the quantities
  written.
\<close>

theorem annihilation_roundtrip:
  assumes "PrimaryFlux_init env (ann_mass M) (ann_channel M) = Inr (ann_primary_flux M)"
  shows "\<exists>d sp M'. DarkMatterAnnihilationSpectralModel_to_dict M = Inr d
           \<and> d ''spectral'' = Some sp
           \<and> dom sp = {''type'', ''parameters'', ''channel'', ''mass'', ''jfactor'', ''z'', ''k''}
           \<and> fst (DarkMatterAnnihilationSpectralModel_from_dict env d) = Inr M'
           \<and> M' = M
           \<and> ann_channel M' = ann_channel M \<and> ann_mass M' = ann_mass M
           \<and> ann_jfactor M' = ann_jfactor M \<and> ann_z M' = ann_z M \<and> ann_k M' = ann_k M
           \<and> ann_scale M' = ann_scale M
           \<and> (\<forall>energy scale.
                 DarkMatterAnnihilationSpectralModel_evaluate M' energy scale =
                 DarkMatterAnnihilationSpectralModel_evaluate M energy scale)"
proof -
  have "DarkMatterAnnihilationSpectralModel_init env (ann_mass M) (ann_channel M) (ann_scale M)
          (ann_jfactor M) (ann_z M) (ann_k M) = Inr M"
    using assms by (simp add: DarkMatterAnnihilationSpectralModel_init_def)
  then show ?thesis
    unfolding ann_to_dict_eq by (simp add: ann_from_dict_eq) auto
qed

theorem annihilation_roundtrip_witness:
  "PrimaryFlux_init example_env (ann_mass example_annihilation) (ann_channel example_annihilation)
     = Inr (ann_primary_flux example_annihilation)
   \<and> DarkMatterAnnihilationSpectralModel_to_dict example_annihilation
       = Inr example_annihilation_dict
   \<and> fst (DarkMatterAnnihilationSpectralModel_from_dict example_env example_annihilation_dict)
       = Inr example_annihilation"
proof -
  have w: "PrimaryFlux_init example_env (ann_mass example_annihilation)
             (ann_channel example_annihilation) = Inr (ann_primary_flux example_annihilation)"
    using example_init by (simp add: example_annihilation_def)
  have t: "DarkMatterAnnihilationSpectralModel_to_dict example_annihilation
             = Inr example_annihilation_dict"
    unfolding ann_to_dict_eq example_annihilation_dict_def
    by (simp add: example_annihilation_def)
  have "fst (DarkMatterAnnihilationSpectralModel_from_dict example_env example_annihilation_dict)
       = Inr example_annihilation"
    using annihilation_roundtrip[OF w] unfolding t
    by (elim exE conjE) simp
  with w t show ?thesis by simp
qed

subsection \<open>Scaling\<close>

text \<open>
  C8. At a fixed energy and with the other parameters fixed, the flux of the decay model
  is multiplied by \<open>c\<close> when the scale is multiplied by \<open>c\<close>, and when the J factor is
  multiplied by \<open>c\<close>; the flux of the annihilation model is the flux at \<open>k = 1\<close> divided by
  \<open>k\<close>, and the flux at \<open>k = 2\<close> is twice the flux at \<open>k = 4\<close>. An error of the primary
  flux is the same error on both sides.
\<close>

theorem flux_scaling:
  "DarkMatterDecaySpectralModel_evaluate d energy (c * scale) =
     map_sum id (num_qmul c) (DarkMatterDecaySpectralModel_evaluate d energy scale)
   \<and> DarkMatterDecaySpectralModel_evaluate (d\<lparr>dec_jfactor := num_qmul c (dec_jfactor d)\<rparr>)
         energy scale =
     map_sum id (num_qmul c) (DarkMatterDecaySpectralModel_evaluate d energy scale)
   \<and> DarkMatterAnnihilationSpectralModel_evaluate a energy scale =
     map_sum id (\<lambda>q. qdiv_num q (ann_k a))
       (DarkMatterAnnihilationSpectralModel_evaluate (a\<lparr>ann_k := 1\<rparr>) energy scale)
   \<and> DarkMatterAnnihilationSpectralModel_evaluate (a\<lparr>ann_k := 2\<rparr>) energy scale =
     map_sum id (num_qmul 2)
       (DarkMatterAnnihilationSpectralModel_evaluate (a\<lparr>ann_k := 4\<rparr>) energy scale)"
  by (simp add: DarkMatterDecaySpectralModel_evaluate_def
      DarkMatterAnnihilationSpectralModel_evaluate_def
      qdiv_num_def qdiv_def qmul_def num_qmul_def Quantity_def unit_div_def unit_mul_def
      mult_ac split: sum.splits)

lemma example_decay_flux:
  "DarkMatterDecaySpectralModel_evaluate example_decay (Quantity 1 GeV) 1 =
     Inr (qdiv_num
           (qdiv
             (qdiv
               (qmul (num_qmul 1 (Quantity 2 dimensionless_unscaled))
                  (Quantity (8 / ln 10) (unit_div dimensionless_unscaled GeV)))
               LIFETIME_AGE_OF_UNIVERSE)
             (Quantity 100 GeV))
           (4 * pi))"
proof -
  have "PrimaryFlux_call (dec_primary_flux example_decay)
             (qmul_num (Quantity 1 GeV) (1 + dec_z example_decay))
           = Inr (Quantity (8 / ln 10) (unit_div dimensionless_unscaled GeV))"
    using example_call by (simp add: example_decay_def)
  then show ?thesis
    unfolding DarkMatterDecaySpectralModel_evaluate_def
    by (simp add: example_decay_def)
qed

theorem flux_scaling_witness:
  "DarkMatterDecaySpectralModel_evaluate example_decay (Quantity 1 GeV) (3 * 1) =
     Inr (num_qmul 3
           (qdiv_num
             (qdiv
               (qdiv
                 (qmul (num_qmul 1 (Quantity 2 dimensionless_unscaled))
                    (Quantity (8 / ln 10) (unit_div dimensionless_unscaled GeV)))
                 LIFETIME_AGE_OF_UNIVERSE)
               (Quantity 100 GeV))
             (4 * pi)))
   \<and> DarkMatterAnnihilationSpectralModel_evaluate (example_annihilation\<lparr>ann_k := 2\<rparr>)
         (Quantity 1 GeV) 1 =
     map_sum id (num_qmul 2)
       (DarkMatterAnnihilationSpectralModel_evaluate (example_annihilation\<lparr>ann_k := 4\<rparr>)
          (Quantity 1 GeV) 1)"
proof -
  from flux_scaling[of example_decay "Quantity 1 GeV" 3 1 example_annihilation]
  have "DarkMatterDecaySpectralModel_evaluate example_decay (Quantity 1 GeV) (3 * 1) =
         map_sum id (num_qmul 3)
           (DarkMatterDecaySpectralModel_evaluate example_decay (Quantity 1 GeV) 1)"
    and "DarkMatterAnnihilationSpectralModel_evaluate (example_annihilation\<lparr>ann_k := 2\<rparr>)
         (Quantity 1 GeV) 1 =
     map_sum id (num_qmul 2)
       (DarkMatterAnnihilationSpectralModel_evaluate (example_annihilation\<lparr>ann_k := 4\<rparr>)
          (Quantity 1 GeV) 1)"
    by blast+
  then show ?thesis
    unfolding example_decay_flux by simp
qed

subsection \<open>The mass keyword\<close>

text \<open>
  C9. \<open>evaluate\<close> writes the mass of the instance over the keyword \<open>mass\<close> before it
  queries the template: two calls with the same energy whose keyword arguments agree on
  every name other than \<open>mass\<close> return the same result, whether the caller passed a mass
  or not.
\<close>

theorem PrimaryFlux_evaluate_ignores_mass_kwarg:
  assumes "\<And>key. key \<noteq> ''mass'' \<Longrightarrow> kwargs1 key = kwargs2 key"
  shows "PrimaryFlux_evaluate self energy kwargs1 = PrimaryFlux_evaluate self energy kwargs2"
proof -
  have "kwargs1(''mass'' \<mapsto> PrimaryFlux_mDM self) = kwargs2(''mass'' \<mapsto> PrimaryFlux_mDM self)"
    using assms by (auto simp: fun_eq_iff)
  then show ?thesis
    by (simp add: PrimaryFlux_evaluate_def Let_def)
qed

theorem PrimaryFlux_evaluate_ignores_mass_kwarg_witness:
  "PrimaryFlux_evaluate example_flux (Quantity 1 GeV) [''mass'' \<mapsto> Quantity 5 TeV] =
     PrimaryFlux_evaluate example_flux (Quantity 1 GeV) Map.empty
   \<and> PrimaryFlux_evaluate example_flux (Quantity 1 GeV) [''mass'' \<mapsto> Quantity 5 TeV] =
     Inr (Quantity (8 / ln 10) (unit_div dimensionless_unscaled GeV))"
proof -
  have "PrimaryFlux_evaluate example_flux (Quantity 1 GeV) [''mass'' \<mapsto> Quantity 5 TeV] =
     PrimaryFlux_evaluate example_flux (Quantity 1 GeV) Map.empty"
    by (rule PrimaryFlux_evaluate_ignores_mass_kwarg) simp
  then show ?thesis
    by (simp add: example_evaluate)
qed

subsection \<open>The argument of \<open>from_dict\<close>\<close>

lemma from_dict_ann_popped:
  assumes "fst (DarkMatterAnnihilationSpectralModel_from_dict env d) = Inr M"
  shows "\<exists>data t ps. d ''spectral'' = Some data \<and> data ''type'' = Some t
           \<and> data ''parameters'' = Some ps
           \<and> snd (DarkMatterAnnihilationSpectralModel_from_dict env d) =
               d(''spectral'' \<mapsto> data(''type'' := None, ''parameters'' := None))"
proof -
  note df = DarkMatterAnnihilationSpectralModel_from_dict_def
  obtain data where sp: "d ''spectral'' = Some data"
    using assms unfolding df by (cases "d ''spectral''") simp_all
  obtain t where ty: "data ''type'' = Some t"
    using assms sp unfolding df by (cases "data ''type''") simp_all
  obtain ps where pa: "data ''parameters'' = Some ps"
    using assms sp ty unfolding df Let_def by (cases "data ''parameters''") simp_all
  have "snd (DarkMatterAnnihilationSpectralModel_from_dict env d) =
               d(''spectral'' \<mapsto> data(''type'' := None, ''parameters'' := None))"
    using sp ty pa unfolding df Let_def
    by (simp split: yaml.splits sum.splits list.splits)
  with sp ty pa show ?thesis by blast
qed

lemma from_dict_dec_popped:
  assumes "fst (DarkMatterDecaySpectralModel_from_dict env d) = Inr M"
  shows "\<exists>data t ps. d ''spectral'' = Some data \<and> data ''type'' = Some t
           \<and> data ''parameters'' = Some ps
           \<and> snd (DarkMatterDecaySpectralModel_from_dict env d) =
               d(''spectral'' \<mapsto> data(''type'' := None, ''parameters'' := None))"
proof -
  note df = DarkMatterDecaySpectralModel_from_dict_def
  obtain data where sp: "d ''spectral'' = Some data"
    using assms unfolding df by (cases "d ''spectral''") simp_all
  obtain t where ty: "data ''type'' = Some t"
    using assms sp unfolding df by (cases "data ''type''") simp_all
  obtain ps where pa: "data ''parameters'' = Some ps"
    using assms sp ty unfolding df Let_def by (cases "data ''parameters''") simp_all
  have "snd (DarkMatterDecaySpectralModel_from_dict env d) =
               d(''spectral'' \<mapsto> data(''type'' := None, ''parameters'' := None))"
    using sp ty pa unfolding df Let_def
    by (simp split: yaml.splits sum.splits list.splits)
  with sp ty pa show ?thesis by blast
qed

lemma popped_differs:
  assumes "d ''spectral'' = Some data" and "data ''type'' = Some t"
  shows "d(''spectral'' \<mapsto> data(''type'' := None, ''parameters'' := None)) \<noteq> d"
proof
  assume "d(''spectral'' \<mapsto> data(''type'' := None, ''parameters'' := None)) = d"
  then have "(d(''spectral'' \<mapsto> data(''type'' := None, ''parameters'' := None))) ''spectral''
      = d ''spectral''" by simp
  then have "data(''type'' := None, ''parameters'' := None) = data"
    using assms(1) by simp
  then have "(data(''type'' := None, ''parameters'' := None)) ''type'' = data ''type''"
    by simp
  then show False using assms(2) by simp
qed

text \<open>
  C10. When \<open>from_dict\<close> of the annihilation model or of the decay model returns a model,
  the dictionary passed to it has changed: the dictionary under \<open>spectral\<close> no longer has
  the keys \<open>type\<close> and \<open>parameters\<close>, so the argument is not what it was before the call.
\<close>

theorem from_dict_pops_argument:
  "(fst (DarkMatterAnnihilationSpectralModel_from_dict env d) = Inr M \<longrightarrow>
      (\<exists>data. snd (DarkMatterAnnihilationSpectralModel_from_dict env d) ''spectral'' = Some data
          \<and> ''type'' \<notin> dom data \<and> ''parameters'' \<notin> dom data)
      \<and> snd (DarkMatterAnnihilationSpectralModel_from_dict env d) \<noteq> d)
   \<and> (fst (DarkMatterDecaySpectralModel_from_dict env d) = Inr M' \<longrightarrow>
      (\<exists>data. snd (DarkMatterDecaySpectralModel_from_dict env d) ''spectral'' = Some data
          \<and> ''type'' \<notin> dom data \<and> ''parameters'' \<notin> dom data)
      \<and> snd (DarkMatterDecaySpectralModel_from_dict env d) \<noteq> d)"
proof (intro conjI impI)
  assume a: "fst (DarkMatterAnnihilationSpectralModel_from_dict env d) = Inr M"
  from from_dict_ann_popped[OF a] obtain data t where
    h: "d ''spectral'' = Some data" "data ''type'' = Some t"
       "snd (DarkMatterAnnihilationSpectralModel_from_dict env d) =
               d(''spectral'' \<mapsto> data(''type'' := None, ''parameters'' := None))"
    by blast
  show "\<exists>data. snd (DarkMatterAnnihilationSpectralModel_from_dict env d) ''spectral'' = Some data
          \<and> ''type'' \<notin> dom data \<and> ''parameters'' \<notin> dom data"
    unfolding h(3) by simp
  show "snd (DarkMatterAnnihilationSpectralModel_from_dict env d) \<noteq> d"
    unfolding h(3) using h(1) h(2) by (rule popped_differs)
next
  assume a: "fst (DarkMatterDecaySpectralModel_from_dict env d) = Inr M'"
  from from_dict_dec_popped[OF a] obtain data t where
    h: "d ''spectral'' = Some data" "data ''type'' = Some t"
       "snd (DarkMatterDecaySpectralModel_from_dict env d) =
               d(''spectral'' \<mapsto> data(''type'' := None, ''parameters'' := None))"
    by blast
  show "\<exists>data. snd (DarkMatterDecaySpectralModel_from_dict env d) ''spectral'' = Some data
          \<and> ''type'' \<notin> dom data \<and> ''parameters'' \<notin> dom data"
    unfolding h(3) by simp
  show "snd (DarkMatterDecaySpectralModel_from_dict env d) \<noteq> d"
    unfolding h(3) using h(1) h(2) by (rule popped_differs)
qed

theorem from_dict_pops_argument_witness:
  "fst (DarkMatterAnnihilationSpectralModel_from_dict example_env example_annihilation_dict)
     = Inr example_annihilation
   \<and> snd (DarkMatterAnnihilationSpectralModel_from_dict example_env example_annihilation_dict)
       \<noteq> example_annihilation_dict
   \<and> fst (DarkMatterDecaySpectralModel_from_dict example_env example_decay_dict)
       = Inr example_decay
   \<and> snd (DarkMatterDecaySpectralModel_from_dict example_env example_decay_dict)
       \<noteq> example_decay_dict"
proof -
  have a: "fst (DarkMatterAnnihilationSpectralModel_from_dict example_env
                  example_annihilation_dict) = Inr example_annihilation"
    unfolding example_annihilation_dict_def ann_from_dict_eq
    by (simp add: example_annihilation_init)
  have b: "fst (DarkMatterDecaySpectralModel_from_dict example_env example_decay_dict)
             = Inr example_decay"
    unfolding example_decay_dict_def dec_from_dict_eq
    by (simp add: example_decay_init)
  have c: "snd (DarkMatterAnnihilationSpectralModel_from_dict example_env
                  example_annihilation_dict) \<noteq> example_annihilation_dict"
    using from_dict_pops_argument[of example_env example_annihilation_dict example_annihilation
        example_decay, THEN conjunct1, THEN mp, OF a]
    by (rule conjunct2)
  have e: "snd (DarkMatterDecaySpectralModel_from_dict example_env example_decay_dict)
             \<noteq> example_decay_dict"
    using from_dict_pops_argument[of example_env example_decay_dict example_annihilation
        example_decay, THEN conjunct2, THEN mp, OF b]
    by (rule conjunct2)
  from a b c e show ?thesis by simp
qed

end
